theory Spec2Isabelle
  imports Main "HOL-Library.Sublist"
begin

section \<open>The git driver of hound (vcs/git.go)\<close>

text \<open>
  The driver talks to the outside world only through \<^verbatim>\<open>os/exec\<close>, \<^verbatim>\<open>os.Open\<close>,
  \<^verbatim>\<open>path/filepath\<close> and \<^verbatim>\<open>log\<close>. The embedding makes that world explicit:
  \<^item> Go strings and byte slices are \<^typ>\<open>string\<close> (lists of 8-bit characters, i.e. bytes);
  \<^item> a Go \<^verbatim>\<open>error\<close> result is an \<open>error option\<close> (\<open>None\<close> is \<^verbatim>\<open>nil\<close>);
  \<^item> every call that leaves the process is an \<open>event\<close>, and the state threaded through
    the driver is the list of events so far, oldest first;
  \<^item> what the outside world answers is a function of that history, collected in the
    record \<open>os\<close>. Nothing is assumed about these functions.
\<close>

subsection \<open>Errors, commands, events and the operating system\<close>

datatype error =
    InvalidCharacter char string nat
      \<comment> \<open>\<^verbatim>\<open>*json.SyntaxError\<close> "invalid character c context", with its offset\<close>
  | UnexpectedEnd nat
      \<comment> \<open>\<^verbatim>\<open>*json.SyntaxError\<close> "unexpected end of JSON input", with its offset\<close>
  | Failure string
      \<comment> \<open>any other error value, by its message\<close>

record Cmd =
  Path :: string
  Args :: "string list"
  Dir :: string

text \<open>
  \<^verbatim>\<open>exec.Command\<close>: the arguments start with the name of the program. \<open>Path\<close> holds the
  name as given; looking it up in the search path belongs to the outside world.
\<close>

definition Command :: "string \<Rightarrow> string list \<Rightarrow> Cmd" where
  "Command name arg = \<lparr>Path = name, Args = name # arg, Dir = []\<rparr>"

datatype arg = S string | E error

datatype event =
    Ran Cmd       \<comment> \<open>\<^verbatim>\<open>cmd.CombinedOutput()\<close>: started and waited for\<close>
  | Piped Cmd     \<comment> \<open>\<^verbatim>\<open>cmd.StdoutPipe()\<close>\<close>
  | Started Cmd   \<comment> \<open>\<^verbatim>\<open>cmd.Start()\<close>\<close>
  | Copied Cmd    \<comment> \<open>\<^verbatim>\<open>io.Copy(&buf, r)\<close> from the pipe of the command\<close>
  | Waited Cmd    \<comment> \<open>\<^verbatim>\<open>cmd.Wait()\<close>\<close>
  | Closed Cmd    \<comment> \<open>the deferred \<^verbatim>\<open>r.Close()\<close>\<close>
  | Logged string "arg list"
                  \<comment> \<open>\<^verbatim>\<open>log.Printf(format, args...)\<close>\<close>

record os =
  CombinedOutput :: "event list \<Rightarrow> Cmd \<Rightarrow> string \<times> error option"
  StdoutPipe :: "event list \<Rightarrow> Cmd \<Rightarrow> error option"
  Start :: "event list \<Rightarrow> Cmd \<Rightarrow> error option"
  Copy :: "event list \<Rightarrow> Cmd \<Rightarrow> string \<times> error option"
  Wait :: "event list \<Rightarrow> Cmd \<Rightarrow> error option"
  Open :: "event list \<Rightarrow> string \<Rightarrow> error + string"
  Split :: "string \<Rightarrow> string \<times> string"
  Join :: "string \<Rightarrow> string \<Rightarrow> string"

text \<open>
  \<open>Open os h path\<close> is \<^verbatim>\<open>os.Open\<close> followed by reading: \<open>Inl\<close> when the file cannot be
  opened, otherwise the bytes the reads deliver before end of file or a read error.
  \<open>Split\<close> and \<open>Join\<close> are \<^verbatim>\<open>filepath.Split\<close> and \<^verbatim>\<open>filepath.Join\<close> of the platform.
\<close>

definition newline :: char where
  "newline = CHR 0x0A"

definition defaultRef :: string where
  "defaultRef = ''master''"

subsection \<open>strings.TrimSpace\<close>

text \<open>
  \<^verbatim>\<open>strings.TrimSpace\<close> removes leading and trailing white space as defined by Unicode
  (\<^verbatim>\<open>unicode.IsSpace\<close>). On bytes this is: strip, from the front and then from the back,
  every UTF-8 encoding of a white-space code point. \<open>spaceRunes\<close> lists these encodings:
  tab, line feed, vertical tab, form feed, carriage return, space, U+0085, U+00A0,
  U+1680, U+2000 to U+200A, U+2028, U+2029, U+202F, U+205F and U+3000.
\<close>

definition spaceRunes :: "string list" where
  "spaceRunes =
    [[CHR 0x09], [CHR 0x0A], [CHR 0x0B], [CHR 0x0C], [CHR 0x0D], [CHR 0x20],
     [CHR 0xC2, CHR 0x85], [CHR 0xC2, CHR 0xA0],
     [CHR 0xE1, CHR 0x9A, CHR 0x80],
     [CHR 0xE2, CHR 0x80, CHR 0x80], [CHR 0xE2, CHR 0x80, CHR 0x81],
     [CHR 0xE2, CHR 0x80, CHR 0x82], [CHR 0xE2, CHR 0x80, CHR 0x83],
     [CHR 0xE2, CHR 0x80, CHR 0x84], [CHR 0xE2, CHR 0x80, CHR 0x85],
     [CHR 0xE2, CHR 0x80, CHR 0x86], [CHR 0xE2, CHR 0x80, CHR 0x87],
     [CHR 0xE2, CHR 0x80, CHR 0x88], [CHR 0xE2, CHR 0x80, CHR 0x89],
     [CHR 0xE2, CHR 0x80, CHR 0x8A],
     [CHR 0xE2, CHR 0x80, CHR 0xA8], [CHR 0xE2, CHR 0x80, CHR 0xA9],
     [CHR 0xE2, CHR 0x80, CHR 0xAF], [CHR 0xE2, CHR 0x81, CHR 0x9F],
     [CHR 0xE3, CHR 0x80, CHR 0x80]]"

text \<open>The width of the first element of \<open>ps\<close> that \<open>s\<close> starts with, 0 when there is none.\<close>

fun leading :: "string list \<Rightarrow> string \<Rightarrow> nat" where
  "leading [] s = 0"
| "leading (p # ps) s = (if p \<noteq> [] \<and> take (length p) s = p then length p else leading ps s)"

function trimLeft :: "string list \<Rightarrow> string \<Rightarrow> string" where
  "trimLeft ps s = (if leading ps s = 0 then s else trimLeft ps (drop (leading ps s) s))"
  by pat_completeness auto

lemma leading_le: "leading ps s \<le> length s"
proof (induction ps)
  case Nil
  show ?case by simp
next
  case (Cons p ps)
  have "length p \<le> length s" if "take (length p) s = p"
  proof -
    from that have "length (take (length p) s) = length p" by simp
    then show ?thesis by simp
  qed
  with Cons show ?case by simp
qed

termination trimLeft
proof (relation "measure (\<lambda>(ps, s). length s)")
  show "wf (measure (\<lambda>(ps, s). length s))" by simp
next
  fix ps :: "string list" and s :: string
  assume "leading ps s \<noteq> 0"
  moreover have "leading ps s \<le> length s" by (rule leading_le)
  ultimately show "((ps, drop (leading ps s) s), (ps, s)) \<in> measure (\<lambda>(ps, s). length s)"
    by simp
qed

declare trimLeft.simps [simp del]

definition TrimSpace :: "string \<Rightarrow> string" where
  "TrimSpace s = rev (trimLeft (map rev spaceRunes) (rev (trimLeft spaceRunes s)))"

subsection \<open>The command runner\<close>

text \<open>
  \<^verbatim>\<open>run\<close> (git.go, lines 78-91): the error of \<^verbatim>\<open>CombinedOutput\<close> is logged and dropped; the
  second component of the result is the constant \<^verbatim>\<open>nil\<close> of the source's last line.
\<close>

definition run :: "os \<Rightarrow> string \<Rightarrow> string \<Rightarrow> string \<Rightarrow> string list \<Rightarrow> event list
    \<Rightarrow> (string \<times> error option) \<times> event list" where
  "run os desc dir cmd arg h =
    (let c = (Command cmd arg)\<lparr>Dir := dir\<rparr>;
         (out, err) = CombinedOutput os h c;
         h1 = h @ [Ran c];
         h2 = (if err \<noteq> None
               then h1 @ [Logged (''Failed to %s %s, see output below'' @ [newline]
                                  @ ''%sContinuing...'') [S desc, S dir, S out]]
               else h1)
     in ((out, None), h2))"

subsection \<open>HeadRev\<close>

text \<open>
  \<^verbatim>\<open>HeadRev\<close> (lines 53-76). The receiver is not used by the source and is left out.
  Each early return of the source is a branch; the deferred \<^verbatim>\<open>r.Close()\<close> runs on every
  path after the pipe exists. On the last line Go evaluates \<^verbatim>\<open>TrimSpace\<close> and then
  \<^verbatim>\<open>cmd.Wait()\<close>, and returns both.
\<close>

definition HeadRev :: "os \<Rightarrow> string \<Rightarrow> event list \<Rightarrow> (string \<times> error option) \<times> event list" where
  "HeadRev os dir h =
    (let cmd = (Command ''git'' [''rev-parse'', ''HEAD''])\<lparr>Dir := dir\<rparr>;
         h1 = h @ [Piped cmd]
     in case StdoutPipe os h cmd of
          Some err \<Rightarrow> (([], Some err), h1)
        | None \<Rightarrow>
           (let h2 = h1 @ [Started cmd]
            in case Start os h1 cmd of
                 Some err \<Rightarrow> (([], Some err), h2 @ [Closed cmd])
               | None \<Rightarrow>
                  (let (buf, cerr) = Copy os h2 cmd;
                       h3 = h2 @ [Copied cmd]
                   in case cerr of
                        Some err \<Rightarrow> (([], Some err), h3 @ [Closed cmd])
                      | None \<Rightarrow>
                         ((TrimSpace buf, Wait os h3 cmd), h3 @ [Waited cmd, Closed cmd]))))"

subsection \<open>The two regular expressions\<close>

text \<open>
  Both patterns of the source are a sequence of literals and the capturing group
  \<^verbatim>\<open>(.+)\<close>. \<open>matchHere\<close> is the backtracking matcher that defines the result of Go's
  \<^verbatim>\<open>regexp\<close> (leftmost match, the greedy \<^verbatim>\<open>.+\<close> tried longest first): it returns the
  captures and the length of the match. \<^verbatim>\<open>.\<close> is any character but a line feed. The
  literals start with an ASCII byte and ASCII bytes never lie inside the encoding of
  another code point, so matching bytes and matching code points agree.
  \<open>FindStringSubmatch\<close> returns the empty list (\<^verbatim>\<open>nil\<close>) when nothing matches, otherwise
  the whole match followed by the captures.
\<close>

datatype rx = Lit string | DotPlus

fun longest :: "(nat \<Rightarrow> 'a option) \<Rightarrow> nat \<Rightarrow> 'a option" where
  "longest f 0 = None"
| "longest f (Suc n) = (case f (Suc n) of Some r \<Rightarrow> Some r | None \<Rightarrow> longest f n)"

fun matchHere :: "rx list \<Rightarrow> string \<Rightarrow> (string list \<times> nat) option" where
  "matchHere [] s = Some ([], 0)"
| "matchHere (Lit l # rs) s =
    (if take (length l) s = l
     then map_option (\<lambda>(caps, n). (caps, length l + n)) (matchHere rs (drop (length l) s))
     else None)"
| "matchHere (DotPlus # rs) s =
    longest (\<lambda>n. map_option (\<lambda>(caps, k). (take n s # caps, n + k)) (matchHere rs (drop n s)))
      (length (takeWhile (\<lambda>c. c \<noteq> newline) s))"

fun FindStringSubmatch :: "rx list \<Rightarrow> string \<Rightarrow> string list" where
  "FindStringSubmatch re [] =
    (case matchHere re [] of Some (caps, n) \<Rightarrow> [] # caps | None \<Rightarrow> [])"
| "FindStringSubmatch re (c # cs) =
    (case matchHere re (c # cs) of
       Some (caps, n) \<Rightarrow> take n (c # cs) # caps
     | None \<Rightarrow> FindStringSubmatch re cs)"

definition headBranchRegexp :: "rx list" where
  "headBranchRegexp = [Lit ''HEAD branch: '', DotPlus]"


subsection \<open>The head-branch detector and the ref resolver\<close>

text \<open>\<^verbatim>\<open>headBranchDetector.detectRef\<close> (lines 180-209).\<close>

definition detectRef :: "os \<Rightarrow> string \<Rightarrow> event list \<Rightarrow> string \<times> event list" where
  "detectRef os dir h =
    (let ((output, err), h1) =
           run os ''git show remote info'' dir ''git'' [''remote'', ''show'', ''origin''] h
     in case err of
          Some e \<Rightarrow>
            ([], h1 @ [Logged (''error occured when fetching info to determine target ref in %s: %s. ''
                               @ ''Will fall back to default ref %s'') [S dir, E e, S defaultRef]])
        | None \<Rightarrow>
           (let matches = FindStringSubmatch headBranchRegexp output
            in if length matches \<noteq> 2
               then ([], h1 @ [Logged (''could not determine target ref in %s. ''
                                       @ ''Will fall back to default ref %s'') [S dir, S defaultRef]])
               else (matches ! 1, h1)))"

text \<open>
  \<^verbatim>\<open>GitDriver\<close> (lines 26-30). The field \<open>refDetetector\<close> holds a value of the interface
  \<^verbatim>\<open>refDetetector\<close>, that is, any function from a directory to a string that may act on
  the outside world.
\<close>

record GitDriver =
  DetectRef :: bool
  Ref :: string
  refDetetector :: "string \<Rightarrow> event list \<Rightarrow> string \<times> event list"

text \<open>\<^verbatim>\<open>GitDriver.targetRef\<close> (lines 118-131).\<close>

definition targetRef :: "GitDriver \<Rightarrow> string \<Rightarrow> event list \<Rightarrow> string \<times> event list" where
  "targetRef g dir h =
    (let (targetRef0, h1) =
           (if Ref g \<noteq> [] then (Ref g, h)
            else if DetectRef g then refDetetector g dir h
            else ([], h))
     in (if targetRef0 = [] then defaultRef else targetRef0, h1))"

subsection \<open>Pull and Clone\<close>

text \<open>\<^verbatim>\<open>GitDriver.Pull\<close> (lines 93-116).\<close>

definition fetchArgs :: "string \<Rightarrow> string list" where
  "fetchArgs ref = [''fetch'', ''--prune'', ''--no-tags'', ''--depth'', ''1'', ''origin'',
                    ''+'' @ ref @ '':remotes/origin/'' @ ref]"

definition resetArgs :: "string \<Rightarrow> string list" where
  "resetArgs ref = [''reset'', ''--hard'', ''origin/'' @ ref]"

definition Pull :: "os \<Rightarrow> GitDriver \<Rightarrow> string \<Rightarrow> event list
    \<Rightarrow> (string \<times> error option) \<times> event list" where
  "Pull os g dir h =
    (let (ref, h1) = targetRef g dir h;
         ((out1, err1), h2) = run os ''git fetch'' dir ''git'' (fetchArgs ref) h1
     in case err1 of
          Some e \<Rightarrow> (([], Some e), h2)
        | None \<Rightarrow>
           (let ((out2, err2), h3) = run os ''git reset'' dir ''git'' (resetArgs ref) h2
            in case err2 of
                 Some e \<Rightarrow> (([], Some e), h3)
               | None \<Rightarrow> HeadRev os dir h3))"

text \<open>\<^verbatim>\<open>GitDriver.Clone\<close> (lines 133-149).\<close>

definition Clone :: "os \<Rightarrow> GitDriver \<Rightarrow> string \<Rightarrow> string \<Rightarrow> event list
    \<Rightarrow> (string \<times> error option) \<times> event list" where
  "Clone os g dir url h =
    (let (par, rep) = Split os dir;
         cmd = (Command ''git'' [''clone'', ''--depth'', ''1'', url, rep])\<lparr>Dir := par\<rparr>;
         (out, err) = CombinedOutput os h cmd;
         h1 = h @ [Ran cmd]
     in case err of
          Some e \<Rightarrow>
            (([], Some e),
             h1 @ [Logged (''Failed to clone %s, see output below'' @ [newline]
                           @ ''%sContinuing...'') [S url, S out]])
        | None \<Rightarrow> Pull os g dir h1)"

definition SpecialFiles :: "string list" where
  "SpecialFiles = [''.git'']"

text \<open>The commands of a history that were run through \<^verbatim>\<open>CombinedOutput\<close>, oldest first.\<close>

primrec ran :: "event list \<Rightarrow> Cmd list" where
  "ran [] = []"
| "ran (e # es) = (case e of Ran c \<Rightarrow> c # ran es | _ \<Rightarrow> ran es)"

subsection \<open>Auto-generated file patterns\<close>








subsection \<open>Construction: newGit and json.Unmarshal\<close>

text \<open>
  \<^verbatim>\<open>json.Unmarshal\<close> first checks that its input is one well-formed JSON value
  (\<^verbatim>\<open>checkValid\<close>, the byte-by-byte state machine of encoding/json's scanner) and only then
  decodes. The state machine is modelled in full; the step functions of the library are
  the functions below, and the field \<open>step\<close> names the one to call next. The stack
  \<open>parseState\<close> has its top at the head of the list.
\<close>

datatype code =
    scanContinue | scanBeginLiteral | scanBeginObject | scanObjectKey | scanObjectValue
  | scanEndObject | scanBeginArray | scanArrayValue | scanEndArray | scanSkipSpace
  | scanEnd | scanError

datatype parse = parseObjectKey | parseObjectValue | parseArrayValue

datatype state =
    StateBeginValueOrEmpty | StateBeginValue | StateBeginStringOrEmpty | StateBeginString
  | StateEndValue | StateEndTop
  | StateInString | StateInStringEsc | StateInStringEscU | StateInStringEscU1
  | StateInStringEscU12 | StateInStringEscU123
  | StateNeg | State1 | State0 | StateDot | StateDot0 | StateE | StateESign | StateE0
  | StateT | StateTr | StateTru | StateF | StateFa | StateFal | StateFals
  | StateN | StateNu | StateNul
  | StateError

record scanner =
  step :: state
  endTop :: bool
  parseState :: "parse list"
  err :: "error option"
  bytes :: nat

definition maxNestingDepth :: nat where
  "maxNestingDepth = 10000"

definition quote :: char where
  "quote = CHR 0x22"

definition backslash :: char where
  "backslash = CHR 0x5C"

definition scanner_error :: "scanner \<Rightarrow> char \<Rightarrow> string \<Rightarrow> code \<times> scanner" where
  "scanner_error s c context =
    (scanError, s\<lparr>step := StateError, err := Some (InvalidCharacter c context (bytes s))\<rparr>)"

definition pushParseState :: "scanner \<Rightarrow> char \<Rightarrow> parse \<Rightarrow> code \<Rightarrow> code \<times> scanner" where
  "pushParseState s c newParseState successState =
    (let s1 = s\<lparr>parseState := newParseState # parseState s\<rparr>
     in if length (parseState s1) \<le> maxNestingDepth then (successState, s1)
        else scanner_error s1 c ''exceeded max depth'')"

definition popParseState :: "scanner \<Rightarrow> scanner" where
  "popParseState s =
    (let ps = tl (parseState s)
     in if ps = [] then s\<lparr>parseState := ps, step := StateEndTop, endTop := True\<rparr>
        else s\<lparr>parseState := ps, step := StateEndValue\<rparr>)"

definition isSpace :: "char \<Rightarrow> bool" where
  "isSpace c = (c = CHR '' '' \<or> c = CHR 0x09 \<or> c = CHR 0x0D \<or> c = CHR 0x0A)"

definition isDigit :: "char \<Rightarrow> bool" where
  "isDigit c = (c \<in> set ''0123456789'')"

definition isHex :: "char \<Rightarrow> bool" where
  "isHex c = (c \<in> set ''0123456789abcdefABCDEF'')"

definition stateEndTop :: "scanner \<Rightarrow> char \<Rightarrow> code \<times> scanner" where
  "stateEndTop s c =
    (if isSpace c then (scanEnd, s)
     else (scanEnd, snd (scanner_error s c ''after top-level value'')))"

definition stateEndValue :: "scanner \<Rightarrow> char \<Rightarrow> code \<times> scanner" where
  "stateEndValue s c =
    (case parseState s of
       [] \<Rightarrow> stateEndTop (s\<lparr>step := StateEndTop, endTop := True\<rparr>) c
     | ps # rest \<Rightarrow>
        if isSpace c then (scanSkipSpace, s\<lparr>step := StateEndValue\<rparr>)
        else (case ps of
           parseObjectKey \<Rightarrow>
             if c = CHR '':''
             then (scanObjectKey, s\<lparr>parseState := parseObjectValue # rest, step := StateBeginValue\<rparr>)
             else scanner_error s c ''after object key''
         | parseObjectValue \<Rightarrow>
             if c = CHR '',''
             then (scanObjectValue, s\<lparr>parseState := parseObjectKey # rest, step := StateBeginString\<rparr>)
             else if c = CHR ''}'' then (scanEndObject, popParseState s)
             else scanner_error s c ''after object key:value pair''
         | parseArrayValue \<Rightarrow>
             if c = CHR '','' then (scanArrayValue, s\<lparr>step := StateBeginValue\<rparr>)
             else if c = CHR '']'' then (scanEndArray, popParseState s)
             else scanner_error s c ''after array element''))"

definition stateBeginString :: "scanner \<Rightarrow> char \<Rightarrow> code \<times> scanner" where
  "stateBeginString s c =
    (if isSpace c then (scanSkipSpace, s)
     else if c = quote then (scanBeginLiteral, s\<lparr>step := StateInString\<rparr>)
     else scanner_error s c ''looking for beginning of object key string'')"

definition stateBeginValue :: "scanner \<Rightarrow> char \<Rightarrow> code \<times> scanner" where
  "stateBeginValue s c =
    (if isSpace c then (scanSkipSpace, s)
     else if c = CHR ''{''
       then pushParseState (s\<lparr>step := StateBeginStringOrEmpty\<rparr>) c parseObjectKey scanBeginObject
     else if c = CHR ''[''
       then pushParseState (s\<lparr>step := StateBeginValueOrEmpty\<rparr>) c parseArrayValue scanBeginArray
     else if c = quote then (scanBeginLiteral, s\<lparr>step := StateInString\<rparr>)
     else if c = CHR ''-'' then (scanBeginLiteral, s\<lparr>step := StateNeg\<rparr>)
     else if c = CHR ''0'' then (scanBeginLiteral, s\<lparr>step := State0\<rparr>)
     else if c = CHR ''t'' then (scanBeginLiteral, s\<lparr>step := StateT\<rparr>)
     else if c = CHR ''f'' then (scanBeginLiteral, s\<lparr>step := StateF\<rparr>)
     else if c = CHR ''n'' then (scanBeginLiteral, s\<lparr>step := StateN\<rparr>)
     else if isDigit c then (scanBeginLiteral, s\<lparr>step := State1\<rparr>)
     else scanner_error s c ''looking for beginning of value'')"

definition stateBeginValueOrEmpty :: "scanner \<Rightarrow> char \<Rightarrow> code \<times> scanner" where
  "stateBeginValueOrEmpty s c =
    (if isSpace c then (scanSkipSpace, s)
     else if c = CHR '']'' then stateEndValue s c
     else stateBeginValue s c)"

definition stateBeginStringOrEmpty :: "scanner \<Rightarrow> char \<Rightarrow> code \<times> scanner" where
  "stateBeginStringOrEmpty s c =
    (if isSpace c then (scanSkipSpace, s)
     else if c = CHR ''}''
       then stateEndValue (s\<lparr>parseState := parseObjectValue # tl (parseState s)\<rparr>) c
     else stateBeginString s c)"

definition stateInString :: "scanner \<Rightarrow> char \<Rightarrow> code \<times> scanner" where
  "stateInString s c =
    (if c = quote then (scanContinue, s\<lparr>step := StateEndValue\<rparr>)
     else if c = backslash then (scanContinue, s\<lparr>step := StateInStringEsc\<rparr>)
     else if (of_char c :: nat) < 32 then scanner_error s c ''in string literal''
     else (scanContinue, s))"

definition stateInStringEsc :: "scanner \<Rightarrow> char \<Rightarrow> code \<times> scanner" where
  "stateInStringEsc s c =
    (if c \<in> set ''bfnrt/'' \<or> c = backslash \<or> c = quote
       then (scanContinue, s\<lparr>step := StateInString\<rparr>)
     else if c = CHR ''u'' then (scanContinue, s\<lparr>step := StateInStringEscU\<rparr>)
     else scanner_error s c ''in string escape code'')"

text \<open>The four hexadecimal digits of a \<^verbatim>\<open>\u\<close> escape share one shape.\<close>

definition stateHex :: "state \<Rightarrow> scanner \<Rightarrow> char \<Rightarrow> code \<times> scanner" where
  "stateHex nxt s c =
    (if isHex c then (scanContinue, s\<lparr>step := nxt\<rparr>)
     else scanner_error s c (''in '' @ [backslash] @ ''u hexadecimal character escape''))"

definition state0 :: "scanner \<Rightarrow> char \<Rightarrow> code \<times> scanner" where
  "state0 s c =
    (if c = CHR ''.'' then (scanContinue, s\<lparr>step := StateDot\<rparr>)
     else if c = CHR ''e'' \<or> c = CHR ''E'' then (scanContinue, s\<lparr>step := StateE\<rparr>)
     else stateEndValue s c)"

definition state1 :: "scanner \<Rightarrow> char \<Rightarrow> code \<times> scanner" where
  "state1 s c =
    (if isDigit c then (scanContinue, s\<lparr>step := State1\<rparr>)
     else state0 s c)"

definition stateNeg :: "scanner \<Rightarrow> char \<Rightarrow> code \<times> scanner" where
  "stateNeg s c =
    (if c = CHR ''0'' then (scanContinue, s\<lparr>step := State0\<rparr>)
     else if isDigit c then (scanContinue, s\<lparr>step := State1\<rparr>)
     else scanner_error s c ''in numeric literal'')"

definition stateDot :: "scanner \<Rightarrow> char \<Rightarrow> code \<times> scanner" where
  "stateDot s c =
    (if isDigit c then (scanContinue, s\<lparr>step := StateDot0\<rparr>)
     else scanner_error s c ''after decimal point in numeric literal'')"

definition stateDot0 :: "scanner \<Rightarrow> char \<Rightarrow> code \<times> scanner" where
  "stateDot0 s c =
    (if isDigit c then (scanContinue, s)
     else if c = CHR ''e'' \<or> c = CHR ''E'' then (scanContinue, s\<lparr>step := StateE\<rparr>)
     else stateEndValue s c)"

definition stateESign :: "scanner \<Rightarrow> char \<Rightarrow> code \<times> scanner" where
  "stateESign s c =
    (if isDigit c then (scanContinue, s\<lparr>step := StateE0\<rparr>)
     else scanner_error s c ''in exponent of numeric literal'')"

definition stateE :: "scanner \<Rightarrow> char \<Rightarrow> code \<times> scanner" where
  "stateE s c =
    (if c = CHR ''+'' \<or> c = CHR ''-'' then (scanContinue, s\<lparr>step := StateESign\<rparr>)
     else stateESign s c)"

definition stateE0 :: "scanner \<Rightarrow> char \<Rightarrow> code \<times> scanner" where
  "stateE0 s c =
    (if isDigit c then (scanContinue, s)
     else stateEndValue s c)"

text \<open>The states inside \<^verbatim>\<open>true\<close>, \<^verbatim>\<open>false\<close> and \<^verbatim>\<open>null\<close> expect one letter each.\<close>

definition stateLetter :: "char \<Rightarrow> state \<Rightarrow> string \<Rightarrow> scanner \<Rightarrow> char \<Rightarrow> code \<times> scanner" where
  "stateLetter want nxt context s c =
    (if c = want then (scanContinue, s\<lparr>step := nxt\<rparr>)
     else scanner_error s c context)"

text \<open>\<^verbatim>\<open>s.step(s, c)\<close>: the call through the function value held by the scanner.\<close>

definition call_step :: "scanner \<Rightarrow> char \<Rightarrow> code \<times> scanner" where
  "call_step s c =
    (case step s of
       StateBeginValueOrEmpty \<Rightarrow> stateBeginValueOrEmpty s c
     | StateBeginValue \<Rightarrow> stateBeginValue s c
     | StateBeginStringOrEmpty \<Rightarrow> stateBeginStringOrEmpty s c
     | StateBeginString \<Rightarrow> stateBeginString s c
     | StateEndValue \<Rightarrow> stateEndValue s c
     | StateEndTop \<Rightarrow> stateEndTop s c
     | StateInString \<Rightarrow> stateInString s c
     | StateInStringEsc \<Rightarrow> stateInStringEsc s c
     | StateInStringEscU \<Rightarrow> stateHex StateInStringEscU1 s c
     | StateInStringEscU1 \<Rightarrow> stateHex StateInStringEscU12 s c
     | StateInStringEscU12 \<Rightarrow> stateHex StateInStringEscU123 s c
     | StateInStringEscU123 \<Rightarrow> stateHex StateInString s c
     | StateNeg \<Rightarrow> stateNeg s c
     | State1 \<Rightarrow> state1 s c
     | State0 \<Rightarrow> state0 s c
     | StateDot \<Rightarrow> stateDot s c
     | StateDot0 \<Rightarrow> stateDot0 s c
     | StateE \<Rightarrow> stateE s c
     | StateESign \<Rightarrow> stateESign s c
     | StateE0 \<Rightarrow> stateE0 s c
     | StateT \<Rightarrow> stateLetter (CHR ''r'') StateTr ''in literal true (expecting 'r')'' s c
     | StateTr \<Rightarrow> stateLetter (CHR ''u'') StateTru ''in literal true (expecting 'u')'' s c
     | StateTru \<Rightarrow> stateLetter (CHR ''e'') StateEndValue ''in literal true (expecting 'e')'' s c
     | StateF \<Rightarrow> stateLetter (CHR ''a'') StateFa ''in literal false (expecting 'a')'' s c
     | StateFa \<Rightarrow> stateLetter (CHR ''l'') StateFal ''in literal false (expecting 'l')'' s c
     | StateFal \<Rightarrow> stateLetter (CHR ''s'') StateFals ''in literal false (expecting 's')'' s c
     | StateFals \<Rightarrow> stateLetter (CHR ''e'') StateEndValue ''in literal false (expecting 'e')'' s c
     | StateN \<Rightarrow> stateLetter (CHR ''u'') StateNu ''in literal null (expecting 'u')'' s c
     | StateNu \<Rightarrow> stateLetter (CHR ''l'') StateNul ''in literal null (expecting 'l')'' s c
     | StateNul \<Rightarrow> stateLetter (CHR ''l'') StateEndValue ''in literal null (expecting 'l')'' s c
     | StateError \<Rightarrow> (scanError, s))"

definition eof :: "scanner \<Rightarrow> code \<times> scanner" where
  "eof s =
    (if err s \<noteq> None then (scanError, s)
     else if endTop s then (scanEnd, s)
     else (let s1 = snd (call_step s (CHR '' ''))
           in if endTop s1 then (scanEnd, s1)
              else (scanError,
                    if err s1 = None then s1\<lparr>err := Some (UnexpectedEnd (bytes s1))\<rparr> else s1)))"

fun checkLoop :: "scanner \<Rightarrow> string \<Rightarrow> error option" where
  "checkLoop scan [] =
    (let (r, scan1) = eof scan in if r = scanError then err scan1 else None)"
| "checkLoop scan (c # data) =
    (let (r, scan1) = call_step (scan\<lparr>bytes := bytes scan + 1\<rparr>) c
     in if r = scanError then err scan1 else checkLoop scan1 data)"

definition checkValid :: "string \<Rightarrow> error option" where
  "checkValid data =
    checkLoop \<lparr>step = StateBeginValue, endTop = False, parseState = [], err = None, bytes = 0\<rparr> data"

text \<open>
  \<^verbatim>\<open>json.Unmarshal(data, &d)\<close>. What the decoder stores into the two exported fields of
  the driver for a well-formed document is the parameter \<open>decode\<close>; it can fail too (a
  value of the wrong type for a field).
\<close>

type_synonym decoder = "string \<Rightarrow> bool \<times> string \<Rightarrow> (bool \<times> string) \<times> error option"

definition Unmarshal :: "decoder \<Rightarrow> string \<Rightarrow> bool \<times> string \<Rightarrow> (bool \<times> string) \<times> error option" where
  "Unmarshal decode data v =
    (case checkValid data of
       Some e \<Rightarrow> (v, Some e)
     | None \<Rightarrow> decode data v)"

text \<open>
  \<^verbatim>\<open>newGit\<close> (lines 39-51). The argument is \<open>None\<close> for a \<^verbatim>\<open>nil\<close> slice and \<open>Some data\<close> for
  any other slice, the empty one included. \<open>(False, [])\<close> is the zero value of the two
  exported fields of \<^verbatim>\<open>var d GitDriver\<close>.
\<close>

definition newGit :: "os \<Rightarrow> decoder \<Rightarrow> string option \<Rightarrow> error + GitDriver" where
  "newGit os decode b =
    (let d = (False, []);
         (d1, e) = (case b of None \<Rightarrow> (d, None) | Some data \<Rightarrow> Unmarshal decode data d)
     in case e of
          Some e1 \<Rightarrow> Inl e1
        | None \<Rightarrow> Inr \<lparr>DetectRef = fst d1, Ref = snd d1, refDetetector = detectRef os\<rparr>)"

subsection \<open>A concrete outside world for the examples\<close>

text \<open>
  The theorems below hold for every \<open>os\<close>. The examples run the driver against this one:
  cloning \<^verbatim>\<open>bad://url\<close> fails, every fetch fails, \<^verbatim>\<open>git remote show origin\<close> reports the
  head branch \<^verbatim>\<open>develop\<close>, \<^verbatim>\<open>git rev-parse HEAD\<close> prints a revision and a line feed, and
  only \<^verbatim>\<open>/data/repo\<close> has an attributes file.
\<close>

definition unixSplit :: "string \<Rightarrow> string \<times> string" where
  "unixSplit p =
    (let f = rev (takeWhile (\<lambda>c. c \<noteq> CHR ''/'') (rev p))
     in (take (length p - length f) p, f))"

definition demoOS :: os where
  "demoOS = \<lparr>
     CombinedOutput = (\<lambda>h c.
        if take 2 (Args c) = [''git'', ''clone''] \<and> Args c ! 4 = ''bad://url''
          then (''fatal: repository not found'', Some (Failure ''exit status 128''))
        else if take 2 (Args c) = [''git'', ''fetch'']
          then (''fatal: unable to access'', Some (Failure ''exit status 128''))
        else if take 2 (Args c) = [''git'', ''remote'']
          then (''* remote origin'' @ [newline] @ ''  HEAD branch: develop'' @ [newline], None)
        else ([], None)),
     StdoutPipe = (\<lambda>h c. None),
     Start = (\<lambda>h c. None),
     Copy = (\<lambda>h c. (''0123abcd'' @ [newline], None)),
     Wait = (\<lambda>h c. None),
     Open = (\<lambda>h p. if p = ''/data/repo/.gitattributes''
                     then Inr (''vendor/**/*.go linguist-generated=true'' @ [newline]
                               @ ''README.md text'' @ [newline]
                               @ ''vendor/**/*.go linguist-generated=true'' @ [newline])
                     else Inl (Failure ''no such file or directory'')),
     Split = unixSplit,
     Join = (\<lambda>a b. a @ ''/'' @ b) \<rparr>"

definition demoGit :: GitDriver where
  "demoGit = \<lparr>DetectRef = True, Ref = [], refDetetector = detectRef demoOS\<rparr>"

section \<open>The command runner never reports a failure\<close>

lemma run_nil: "snd (fst (run os desc dir cmd arg h)) = None"
  by (simp add: run_def Let_def split: prod.splits)

text \<open>
  Claim C2. For every invocation of \<^verbatim>\<open>run\<close>, whatever the outside world answers (a
  non-zero exit status and a failure to start are both a non-nil error of
  \<^verbatim>\<open>CombinedOutput\<close>), the result is the captured combined output together with a nil
  error.
\<close>

theorem run_returns_output_and_nil:
  "fst (run os desc dir cmd arg h) =
     (fst (CombinedOutput os h ((Command cmd arg)\<lparr>Dir := dir\<rparr>)), None)"
  by (simp add: run_def Let_def split: prod.splits)

theorem run_returns_output_and_nil_witness:
  "snd (CombinedOutput demoOS [] ((Command ''git'' (fetchArgs ''master''))\<lparr>Dir := ''/data/repo''\<rparr>))
     = Some (Failure ''exit status 128'')
   \<and> fst (run demoOS ''git fetch'' ''/data/repo'' ''git'' (fetchArgs ''master'') [])
     = (''fatal: unable to access'', None)"
  using run_returns_output_and_nil
          [of demoOS "''git fetch''" "''/data/repo''" "''git''" "fetchArgs ''master''" "[]"]
  by (simp add: demoOS_def Command_def fetchArgs_def)

section \<open>Pull and Clone\<close>

text \<open>
  Claim C3. \<^verbatim>\<open>Pull(dir)\<close> returns exactly what \<^verbatim>\<open>HeadRev(dir)\<close> returns when it is called
  after the ref resolution, the fetch and the reset, value and error alike: \<^verbatim>\<open>Pull\<close>
  returns an error if and only if that call of \<^verbatim>\<open>HeadRev\<close> does, and a failed fetch or
  reset (any answer of the outside world) changes nothing in this.
\<close>

theorem Pull_returns_HeadRev:
  "Pull os g dir h =
     HeadRev os dir
       (snd (run os ''git reset'' dir ''git'' (resetArgs (fst (targetRef g dir h)))
          (snd (run os ''git fetch'' dir ''git'' (fetchArgs (fst (targetRef g dir h)))
             (snd (targetRef g dir h))))))"
proof -
  obtain r h1 where t: "targetRef g dir h = (r, h1)"
    by (cases "targetRef g dir h")
  obtain o1 e1 h2 where f: "run os ''git fetch'' dir ''git'' (fetchArgs r) h1 = ((o1, e1), h2)"
    by (metis surj_pair)
  obtain o2 e2 h3 where s: "run os ''git reset'' dir ''git'' (resetArgs r) h2 = ((o2, e2), h3)"
    by (metis surj_pair)
  have "e1 = None"
    using run_nil [of os "''git fetch''" dir "''git''" "fetchArgs r" h1] f by simp
  moreover have "e2 = None"
    using run_nil [of os "''git reset''" dir "''git''" "resetArgs r" h2] s by simp
  ultimately show ?thesis
    by (simp add: Pull_def t f s)
qed

lemma demo_HeadRev: "fst (HeadRev demoOS dir h) = (''0123abcd'', None)"
  apply (simp add: HeadRev_def demoOS_def Let_def TrimSpace_def)
  apply (simp add: trimLeft.simps spaceRunes_def newline_def)
  done

text \<open>In the example the fetch fails and \<^verbatim>\<open>Pull\<close> still returns the head revision.\<close>

theorem Pull_returns_HeadRev_witness:
  "snd (CombinedOutput demoOS [] ((Command ''git'' (fetchArgs ''main''))\<lparr>Dir := ''/data/repo''\<rparr>))
     = Some (Failure ''exit status 128'')
   \<and> fst (Pull demoOS (demoGit\<lparr>Ref := ''main''\<rparr>) ''/data/repo'' []) = (''0123abcd'', None)"
  using Pull_returns_HeadRev [of demoOS "demoGit\<lparr>Ref := ''main''\<rparr>" "''/data/repo''" "[]"]
  by (simp add: demo_HeadRev) (simp add: demoOS_def Command_def fetchArgs_def)

text \<open>
  Claim C4. When the clone invocation of \<^verbatim>\<open>Clone(dir, url)\<close> fails, \<^verbatim>\<open>Clone\<close> returns that
  error at once: the only events it adds to the history are the clone command and the
  log line, so no fetch, no reset and no \<^verbatim>\<open>HeadRev\<close> takes place. When the clone
  invocation succeeds, \<^verbatim>\<open>Clone\<close> returns exactly the result of \<^verbatim>\<open>Pull(dir)\<close>.
\<close>

theorem Clone_fails_fast:
  assumes "Split os dir = (par, rep)"
    and "cmd = (Command ''git'' [''clone'', ''--depth'', ''1'', url, rep])\<lparr>Dir := par\<rparr>"
  shows "(snd (CombinedOutput os h cmd) = Some e \<longrightarrow>
            Clone os g dir url h =
              (([], Some e),
               h @ [Ran cmd,
                    Logged (''Failed to clone %s, see output below'' @ [newline] @ ''%sContinuing...'')
                           [S url, S (fst (CombinedOutput os h cmd))]]))
       \<and> (snd (CombinedOutput os h cmd) = None \<longrightarrow>
            Clone os g dir url h = Pull os g dir (h @ [Ran cmd]))"
  using assms by (auto simp: Clone_def Let_def split: prod.splits)

lemma demo_Split: "Split demoOS ''/data/repo'' = (''/data/'', ''repo'')"
  by (simp add: demoOS_def unixSplit_def)

theorem Clone_fails_fast_witness:
  "Clone demoOS demoGit ''/data/repo'' ''bad://url'' [] =
     (([], Some (Failure ''exit status 128'')),
      [Ran ((Command ''git'' [''clone'', ''--depth'', ''1'', ''bad://url'', ''repo''])\<lparr>Dir := ''/data/''\<rparr>),
       Logged (''Failed to clone %s, see output below'' @ [newline] @ ''%sContinuing...'')
              [S ''bad://url'', S ''fatal: repository not found'']])
   \<and> Clone demoOS demoGit ''/data/repo'' ''https://host/repo.git'' [] =
       Pull demoOS demoGit ''/data/repo''
         [Ran ((Command ''git'' [''clone'', ''--depth'', ''1'', ''https://host/repo.git'', ''repo''])\<lparr>Dir := ''/data/''\<rparr>)]"
  using Clone_fails_fast [OF demo_Split refl,
          where url = "''bad://url''" and h = "[]" and e = "Failure ''exit status 128''" and g = demoGit]
        Clone_fails_fast [OF demo_Split refl,
          where url = "''https://host/repo.git''" and h = "[]" and g = demoGit]
  by (simp add: demoOS_def Command_def)

section \<open>HeadRev\<close>

text \<open>
  What \<open>TrimSpace\<close> computes: the input is the result with white-space code points
  before and after it, and the result neither starts nor ends with one.
\<close>

lemma leading_in: "leading ps s \<noteq> 0 \<Longrightarrow> take (leading ps s) s \<in> set ps"
  by (induction ps) (auto split: if_splits)

lemma leading_prefix: "leading ps (take k s) \<noteq> 0 \<Longrightarrow> leading ps s \<noteq> 0"
proof (induction ps)
  case Nil
  then show ?case by simp
next
  case (Cons p ps)
  show ?case
  proof (cases "p \<noteq> [] \<and> take (length p) (take k s) = p")
    case True
    then have "length (take (length p) (take k s)) = length p" by simp
    then have "length p \<le> k" by simp
    with True have "take (length p) s = p" by (simp add: min_def)
    with True show ?thesis by simp
  next
    case False
    with Cons show ?thesis by (auto split: if_splits)
  qed
qed

lemma trimLeft_decomp:
  "\<exists>ws. set ws \<subseteq> set ps \<and> s = concat ws @ trimLeft ps s"
proof (induction ps s rule: trimLeft.induct)
  case (1 ps s)
  show ?case
  proof (cases "leading ps s = 0")
    case True
    then have "trimLeft ps s = s" by (simp add: trimLeft.simps)
    then have "set [] \<subseteq> set ps \<and> s = concat [] @ trimLeft ps s" by simp
    then show ?thesis by blast
  next
    case False
    from 1 False obtain ws where ws: "set ws \<subseteq> set ps"
      "drop (leading ps s) s = concat ws @ trimLeft ps (drop (leading ps s) s)"
      by blast
    from False have t: "trimLeft ps s = trimLeft ps (drop (leading ps s) s)"
      by (subst trimLeft.simps) simp
    have "s = take (leading ps s) s @ drop (leading ps s) s" by simp
    with ws t have "s = concat (take (leading ps s) s # ws) @ trimLeft ps s"
      by simp
    moreover have "set (take (leading ps s) s # ws) \<subseteq> set ps"
      using ws(1) leading_in [OF False] by simp
    ultimately show ?thesis by blast
  qed
qed

lemma trimLeft_done: "leading ps (trimLeft ps s) = 0"
proof (induction ps s rule: trimLeft.induct)
  case (1 ps s)
  show ?case
  proof (cases "leading ps s = 0")
    case True
    then show ?thesis by (simp add: trimLeft.simps)
  next
    case False
    with 1 show ?thesis by (subst trimLeft.simps) simp
  qed
qed

lemma TrimSpace_spec:
  "\<exists>ws1 ws2. set ws1 \<subseteq> set spaceRunes \<and> set ws2 \<subseteq> set spaceRunes
      \<and> s = concat ws1 @ TrimSpace s @ concat ws2"
proof -
  obtain ws1 where w1: "set ws1 \<subseteq> set spaceRunes" "s = concat ws1 @ trimLeft spaceRunes s"
    using trimLeft_decomp by blast
  define t where "t = trimLeft spaceRunes s"
  obtain ws where w: "set ws \<subseteq> set (map rev spaceRunes)"
      "rev t = concat ws @ trimLeft (map rev spaceRunes) (rev t)"
    using trimLeft_decomp by blast
  have "t = rev (concat ws @ trimLeft (map rev spaceRunes) (rev t))"
    using w(2) by (metis rev_rev_ident)
  then have "t = TrimSpace s @ concat (rev (map rev ws))"
    by (simp add: TrimSpace_def t_def rev_concat rev_map)
  with w1(2) have "s = concat ws1 @ TrimSpace s @ concat (rev (map rev ws))"
    by (simp add: t_def)
  moreover have "set (rev (map rev ws)) \<subseteq> set spaceRunes"
    using w(1) by auto
  ultimately have "set ws1 \<subseteq> set spaceRunes \<and> set (rev (map rev ws)) \<subseteq> set spaceRunes
      \<and> s = concat ws1 @ TrimSpace s @ concat (rev (map rev ws))"
    using w1(1) by simp
  then show ?thesis by (intro exI)
qed

lemma TrimSpace_no_leading: "leading spaceRunes (TrimSpace s) = 0"
proof -
  define t where "t = trimLeft spaceRunes s"
  obtain ws where "rev t = concat ws @ trimLeft (map rev spaceRunes) (rev t)"
    using trimLeft_decomp by blast
  then have "t = rev (concat ws @ trimLeft (map rev spaceRunes) (rev t))"
    by (metis rev_rev_ident)
  then have "t = TrimSpace s @ rev (concat ws)"
    by (simp add: TrimSpace_def t_def)
  then have "TrimSpace s = take (length (TrimSpace s)) t"
    by (metis append_eq_conv_conj)
  moreover have "leading spaceRunes t = 0" unfolding t_def by (rule trimLeft_done)
  ultimately show ?thesis using leading_prefix [of spaceRunes "length (TrimSpace s)" t] by metis
qed

lemma TrimSpace_no_trailing: "leading (map rev spaceRunes) (rev (TrimSpace s)) = 0"
  by (simp add: TrimSpace_def trimLeft_done)

text \<open>
  Claim C7. \<^verbatim>\<open>HeadRev(dir)\<close> returns the captured output of \<^verbatim>\<open>git rev-parse HEAD\<close> with the
  surrounding white space trimmed. A failure to create the pipe, to start the command or
  to read its output is returned as the error, with the empty string; a failure of the
  wait is returned as the error beside the trimmed output. No other value is substituted
  on any path. The last three conjuncts say what trimmed means.
\<close>

theorem HeadRev_trims_and_propagates:
  assumes "cmd = (Command ''git'' [''rev-parse'', ''HEAD''])\<lparr>Dir := dir\<rparr>"
  shows "(StdoutPipe os h cmd = Some e \<longrightarrow> fst (HeadRev os dir h) = ([], Some e))
    \<and> (StdoutPipe os h cmd = None \<and> Start os (h @ [Piped cmd]) cmd = Some e
         \<longrightarrow> fst (HeadRev os dir h) = ([], Some e))
    \<and> (StdoutPipe os h cmd = None \<and> Start os (h @ [Piped cmd]) cmd = None
        \<and> Copy os (h @ [Piped cmd, Started cmd]) cmd = (buf, Some e)
         \<longrightarrow> fst (HeadRev os dir h) = ([], Some e))
    \<and> (StdoutPipe os h cmd = None \<and> Start os (h @ [Piped cmd]) cmd = None
        \<and> Copy os (h @ [Piped cmd, Started cmd]) cmd = (buf, None)
         \<longrightarrow> fst (HeadRev os dir h) =
               (TrimSpace buf, Wait os (h @ [Piped cmd, Started cmd, Copied cmd]) cmd))
    \<and> (\<exists>ws1 ws2. set ws1 \<subseteq> set spaceRunes \<and> set ws2 \<subseteq> set spaceRunes
          \<and> buf = concat ws1 @ TrimSpace buf @ concat ws2)
    \<and> leading spaceRunes (TrimSpace buf) = 0
    \<and> leading (map rev spaceRunes) (rev (TrimSpace buf)) = 0"
proof -
  have "StdoutPipe os h cmd = Some e \<longrightarrow> fst (HeadRev os dir h) = ([], Some e)"
    using assms by (simp add: HeadRev_def Let_def)
  moreover have "StdoutPipe os h cmd = None \<and> Start os (h @ [Piped cmd]) cmd = Some e
         \<longrightarrow> fst (HeadRev os dir h) = ([], Some e)"
    using assms by (simp add: HeadRev_def Let_def)
  moreover have "StdoutPipe os h cmd = None \<and> Start os (h @ [Piped cmd]) cmd = None
        \<and> Copy os (h @ [Piped cmd, Started cmd]) cmd = (buf, Some e)
         \<longrightarrow> fst (HeadRev os dir h) = ([], Some e)"
    using assms by (simp add: HeadRev_def Let_def)
  moreover have "StdoutPipe os h cmd = None \<and> Start os (h @ [Piped cmd]) cmd = None
        \<and> Copy os (h @ [Piped cmd, Started cmd]) cmd = (buf, None)
         \<longrightarrow> fst (HeadRev os dir h) =
               (TrimSpace buf, Wait os (h @ [Piped cmd, Started cmd, Copied cmd]) cmd)"
    using assms by (simp add: HeadRev_def Let_def)
  ultimately show ?thesis
    using TrimSpace_spec [of buf] TrimSpace_no_leading [of buf] TrimSpace_no_trailing [of buf]
    by simp
qed

lemma demo_TrimSpace: "TrimSpace (''0123abcd'' @ [newline]) = ''0123abcd''"
  by (simp add: TrimSpace_def trimLeft.simps spaceRunes_def newline_def)

theorem HeadRev_trims_and_propagates_witness:
  "fst (HeadRev (demoOS\<lparr>StdoutPipe := \<lambda>h c. Some (Failure ''too many open files'')\<rparr>) ''/data/repo'' [])
     = ([], Some (Failure ''too many open files''))
   \<and> fst (HeadRev (demoOS\<lparr>Start := \<lambda>h c. Some (Failure ''executable file not found'')\<rparr>) ''/data/repo'' [])
     = ([], Some (Failure ''executable file not found''))
   \<and> fst (HeadRev (demoOS\<lparr>Copy := \<lambda>h c. (''0123'', Some (Failure ''read error''))\<rparr>) ''/data/repo'' [])
     = ([], Some (Failure ''read error''))
   \<and> fst (HeadRev (demoOS\<lparr>Wait := \<lambda>h c. Some (Failure ''exit status 128'')\<rparr>) ''/data/repo'' [])
     = (''0123abcd'', Some (Failure ''exit status 128''))
   \<and> fst (HeadRev demoOS ''/data/repo'' []) = (''0123abcd'', None)"
  using HeadRev_trims_and_propagates [OF refl,
          where os = "demoOS\<lparr>StdoutPipe := \<lambda>h c. Some (Failure ''too many open files'')\<rparr>"
            and dir = "''/data/repo''" and h = "[]" and e = "Failure ''too many open files''"]
        HeadRev_trims_and_propagates [OF refl,
          where os = "demoOS\<lparr>Start := \<lambda>h c. Some (Failure ''executable file not found'')\<rparr>"
            and dir = "''/data/repo''" and h = "[]" and e = "Failure ''executable file not found''"]
        HeadRev_trims_and_propagates [OF refl,
          where os = "demoOS\<lparr>Copy := \<lambda>h c. (''0123'', Some (Failure ''read error''))\<rparr>"
            and dir = "''/data/repo''" and h = "[]" and e = "Failure ''read error''" and buf = "''0123''"]
        HeadRev_trims_and_propagates [OF refl,
          where os = "demoOS\<lparr>Wait := \<lambda>h c. Some (Failure ''exit status 128'')\<rparr>"
            and dir = "''/data/repo''" and h = "[]" and buf = "''0123abcd'' @ [newline]"]
        HeadRev_trims_and_propagates [OF refl,
          where os = demoOS and dir = "''/data/repo''" and h = "[]" and buf = "''0123abcd'' @ [newline]"]
  by (simp add: demoOS_def demo_TrimSpace [simplified])

section \<open>Ref resolution\<close>

text \<open>
  Claim C1. The three tiers of \<^verbatim>\<open>targetRef\<close>, for every driver (any detector) and every
  directory: a non-empty \<^verbatim>\<open>Ref\<close> is the result and the detector is not called (the
  history is unchanged), whatever \<^verbatim>\<open>DetectRef\<close> is; with an empty \<^verbatim>\<open>Ref\<close> and \<^verbatim>\<open>DetectRef\<close>
  set, a non-empty answer of the detector is the result; in every remaining case (the
  detector answers the empty string, or \<^verbatim>\<open>DetectRef\<close> is not set) the result is the
  default \<^verbatim>\<open>master\<close>.
\<close>

theorem targetRef_precedence:
  "(Ref g \<noteq> [] \<longrightarrow> targetRef g dir h = (Ref g, h))
   \<and> (Ref g = [] \<and> DetectRef g \<and> fst (refDetetector g dir h) \<noteq> []
        \<longrightarrow> targetRef g dir h = refDetetector g dir h)
   \<and> (Ref g = [] \<and> DetectRef g \<and> fst (refDetetector g dir h) = []
        \<longrightarrow> targetRef g dir h = (defaultRef, snd (refDetetector g dir h)))
   \<and> (Ref g = [] \<and> \<not> DetectRef g \<longrightarrow> targetRef g dir h = (defaultRef, h))"
  by (auto simp: targetRef_def Let_def split: prod.splits)

lemma demo_detectRef: "fst (detectRef demoOS ''/data/repo'' []) = ''develop''"
  by (simp add: detectRef_def run_def demoOS_def Command_def Let_def headBranchRegexp_def newline_def)

theorem targetRef_precedence_witness:
  "targetRef (demoGit\<lparr>Ref := ''main''\<rparr>) ''/data/repo'' [] = (''main'', [])
   \<and> fst (targetRef demoGit ''/data/repo'' []) = ''develop''
   \<and> targetRef (demoGit\<lparr>refDetetector := (\<lambda>d h. ([], h))\<rparr>) ''/data/repo'' [] = (''master'', [])
   \<and> targetRef (demoGit\<lparr>DetectRef := False\<rparr>) ''/data/repo'' [] = (''master'', [])"
  using targetRef_precedence [of "demoGit\<lparr>Ref := ''main''\<rparr>" "''/data/repo''" "[]"]
        targetRef_precedence [of demoGit "''/data/repo''" "[]"]
        targetRef_precedence [of "demoGit\<lparr>refDetetector := (\<lambda>d h. ([], h))\<rparr>" "''/data/repo''" "[]"]
        targetRef_precedence [of "demoGit\<lparr>DetectRef := False\<rparr>" "''/data/repo''" "[]"]
  by (simp add: demoGit_def defaultRef_def demo_detectRef)

section \<open>The regular expressions in closed form\<close>



lemma take_takeWhile_length: "take (length (takeWhile P xs)) xs = takeWhile P xs"
  by (induction xs) auto

lemma matchHere_Lit_DotPlus:
  "matchHere [Lit l, DotPlus] s =
     (if take (length l) s = l \<and> takeWhile (\<lambda>c. c \<noteq> newline) (drop (length l) s) \<noteq> []
      then Some ([takeWhile (\<lambda>c. c \<noteq> newline) (drop (length l) s)],
                 length l + length (takeWhile (\<lambda>c. c \<noteq> newline) (drop (length l) s)))
      else None)"
proof -
  define t where "t = drop (length l) s"
  define m where "m = length (takeWhile (\<lambda>c. c \<noteq> newline) t)"
  have "longest (\<lambda>n. Some ([take n t], n)) m = (if m = 0 then None else Some ([take m t], m))"
    by (cases m) simp_all
  moreover have "take m t = takeWhile (\<lambda>c. c \<noteq> newline) t"
    by (simp add: m_def take_takeWhile_length)
  moreover have "(m = 0) = (takeWhile (\<lambda>c. c \<noteq> newline) t = [])"
    by (simp add: m_def)
  ultimately show ?thesis
    by (simp add: t_def [symmetric] m_def [symmetric])
qed




lemma FindStringSubmatch_found:
  "FindStringSubmatch re s \<noteq> []
   \<Longrightarrow> \<exists>i caps n. i \<le> length s \<and> matchHere re (drop i s) = Some (caps, n)
         \<and> FindStringSubmatch re s = take n (drop i s) # caps"
proof (induction s)
  case Nil
  then obtain caps n where "matchHere re [] = Some (caps, n)"
    by (auto split: option.splits)
  then have "0 \<le> length ([]::string) \<and> matchHere re (drop 0 []) = Some (caps, n)
      \<and> FindStringSubmatch re [] = take n (drop 0 []) # caps" by simp
  then show ?case by blast
next
  case (Cons c s)
  show ?case
  proof (cases "matchHere re (c # s)")
    case None
    with Cons obtain i caps n where "i \<le> length s" "matchHere re (drop i s) = Some (caps, n)"
      "FindStringSubmatch re s = take n (drop i s) # caps" by auto
    with None have "Suc i \<le> length (c # s) \<and> matchHere re (drop (Suc i) (c # s)) = Some (caps, n)
      \<and> FindStringSubmatch re (c # s) = take n (drop (Suc i) (c # s)) # caps" by simp
    then show ?thesis by blast
  next
    case (Some a)
    obtain caps n where a: "a = (caps, n)" by (cases a)
    with Some have "0 \<le> length (c # s) \<and> matchHere re (drop 0 (c # s)) = Some (caps, n)
      \<and> FindStringSubmatch re (c # s) = take n (drop 0 (c # s)) # caps" by simp
    then show ?thesis by blast
  qed
qed





lemma FindStringSubmatch_Lit_DotPlus_capture:
  assumes "FindStringSubmatch [Lit l, DotPlus] out \<noteq> []"
  shows "\<exists>whole name. FindStringSubmatch [Lit l, DotPlus] out = [whole, name]
          \<and> name \<noteq> [] \<and> newline \<notin> set name"
proof -
  from FindStringSubmatch_found [OF assms] obtain i caps n where
    m: "matchHere [Lit l, DotPlus] (drop i out) = Some (caps, n)"
    and f: "FindStringSubmatch [Lit l, DotPlus] out = take n (drop i out) # caps"
    by blast
  define name where "name = takeWhile (\<lambda>c. c \<noteq> newline) (drop (length l) (drop i out))"
  from m have "caps = [name] \<and> name \<noteq> []"
    by (auto simp: matchHere_Lit_DotPlus name_def simp del: matchHere.simps split: if_splits)
  moreover have "newline \<notin> set name"
    unfolding name_def by (metis (mono_tags, lifting) set_takeWhileD)
  ultimately show ?thesis using f by simp
qed

section \<open>The head-branch detector\<close>

lemma ran_append: "ran (xs @ ys) = ran xs @ ran ys"
  by (induction xs) (auto split: event.splits)

lemma ran_run: "ran (snd (run os desc dir cmd arg h)) = ran h @ [(Command cmd arg)\<lparr>Dir := dir\<rparr>]"
  by (simp add: run_def Let_def ran_append split: prod.splits)

lemma ran_HeadRev: "ran (snd (HeadRev os dir h)) = ran h"
  by (simp add: HeadRev_def Let_def ran_append split: prod.splits option.splits)





text \<open>
  Claim C10. For every driver and working directory the resolved ref is not empty; the
  regular expression of the detector either does not match or captures a non-empty
  name; and the commands that \<^verbatim>\<open>Pull\<close> runs after resolving the ref are exactly the fetch
  and the reset built from that non-empty ref.
\<close>

theorem targetRef_nonempty:
  "fst (targetRef g dir h) \<noteq> []
   \<and> (FindStringSubmatch headBranchRegexp out = []
       \<or> (\<exists>whole name. FindStringSubmatch headBranchRegexp out = [whole, name] \<and> name \<noteq> []))
   \<and> ran (snd (Pull os g dir h)) =
       ran (snd (targetRef g dir h))
       @ [(Command ''git'' (fetchArgs (fst (targetRef g dir h))))\<lparr>Dir := dir\<rparr>,
          (Command ''git'' (resetArgs (fst (targetRef g dir h))))\<lparr>Dir := dir\<rparr>]"
proof (intro conjI)
  show "fst (targetRef g dir h) \<noteq> []"
    by (simp add: targetRef_def Let_def defaultRef_def split: prod.splits)
next
  show "FindStringSubmatch headBranchRegexp out = []
       \<or> (\<exists>whole name. FindStringSubmatch headBranchRegexp out = [whole, name] \<and> name \<noteq> [])"
    using FindStringSubmatch_Lit_DotPlus_capture [of "''HEAD branch: ''" out]
    unfolding headBranchRegexp_def by blast
next
  obtain r h1 where t: "targetRef g dir h = (r, h1)"
    by (cases "targetRef g dir h")
  obtain o1 e1 h2 where f: "run os ''git fetch'' dir ''git'' (fetchArgs r) h1 = ((o1, e1), h2)"
    by (metis surj_pair)
  obtain o2 e2 h3 where s: "run os ''git reset'' dir ''git'' (resetArgs r) h2 = ((o2, e2), h3)"
    by (metis surj_pair)
  have h2: "ran h2 = ran h1 @ [(Command ''git'' (fetchArgs r))\<lparr>Dir := dir\<rparr>]"
    using ran_run [of os "''git fetch''" dir "''git''" "fetchArgs r" h1] f by simp
  have h3: "ran h3 = ran h2 @ [(Command ''git'' (resetArgs r))\<lparr>Dir := dir\<rparr>]"
    using ran_run [of os "''git reset''" dir "''git''" "resetArgs r" h2] s by simp
  have e: "e1 = None" "e2 = None"
    using run_nil [of os "''git fetch''" dir "''git''" "fetchArgs r" h1] f
          run_nil [of os "''git reset''" dir "''git''" "resetArgs r" h2] s by simp_all
  have "Pull os g dir h = HeadRev os dir h3"
    by (simp add: Pull_def t f s e)
  then show "ran (snd (Pull os g dir h)) =
       ran (snd (targetRef g dir h))
       @ [(Command ''git'' (fetchArgs (fst (targetRef g dir h))))\<lparr>Dir := dir\<rparr>,
          (Command ''git'' (resetArgs (fst (targetRef g dir h))))\<lparr>Dir := dir\<rparr>]"
    by (simp add: ran_HeadRev h3 h2 t)
qed

theorem targetRef_nonempty_witness:
  "fst (targetRef (demoGit\<lparr>refDetetector := (\<lambda>d h. ([], h))\<rparr>) ''/data/repo'' []) = ''master''
   \<and> FindStringSubmatch headBranchRegexp ''HEAD branch: '' = []
   \<and> ran (snd (Pull demoOS (demoGit\<lparr>refDetetector := (\<lambda>d h. ([], h))\<rparr>) ''/data/repo'' [])) =
       [(Command ''git'' (fetchArgs ''master''))\<lparr>Dir := ''/data/repo''\<rparr>,
        (Command ''git'' (resetArgs ''master''))\<lparr>Dir := ''/data/repo''\<rparr>]"
  using targetRef_nonempty [where g = "demoGit\<lparr>refDetetector := (\<lambda>d h. ([], h))\<rparr>"
          and dir = "''/data/repo''" and h = "[]" and out = "''HEAD branch: ''" and os = demoOS]
  by (simp add: targetRef_def demoGit_def defaultRef_def headBranchRegexp_def)

section \<open>Auto-generated file patterns\<close>



























section \<open>Construction\<close>

lemma checkValid_empty: "checkValid [] = Some (UnexpectedEnd 0)"
  by (simp add: checkValid_def eof_def call_step_def stateBeginValue_def isSpace_def)

lemma checkValid_open_brace: "checkValid ''{'' = Some (UnexpectedEnd 1)"
  by (simp add: checkValid_def eof_def call_step_def stateBeginValue_def isSpace_def
      pushParseState_def maxNestingDepth_def stateBeginStringOrEmpty_def stateBeginString_def)

lemma checkValid_empty_object: "checkValid ''{}'' = None"
  by (simp add: checkValid_def eof_def call_step_def stateBeginValue_def isSpace_def
      pushParseState_def maxNestingDepth_def stateBeginStringOrEmpty_def stateEndValue_def
      popParseState_def)

text \<open>
  Claim C8, as amended. Construction from an absent (\<^verbatim>\<open>nil\<close>) blob succeeds with the defaults
  \<^verbatim>\<open>DetectRef = false\<close> and \<^verbatim>\<open>Ref = ""\<close>. An empty blob that is not \<^verbatim>\<open>nil\<close> is handed to
  \<^verbatim>\<open>json.Unmarshal\<close> and fails with "unexpected end of JSON input". Every blob that is not
  well-formed JSON returns the error of the check, and so does a well-formed one that the
  decoder rejects; otherwise the driver holds the decoded fields.
\<close>

theorem newGit_construction:
  "newGit os decode None = Inr \<lparr>DetectRef = False, Ref = [], refDetetector = detectRef os\<rparr>
   \<and> newGit os decode (Some []) = Inl (UnexpectedEnd 0)
   \<and> (checkValid data = Some e \<longrightarrow> newGit os decode (Some data) = Inl e)
   \<and> (checkValid data = None \<and> decode data (False, []) = (d, Some e)
        \<longrightarrow> newGit os decode (Some data) = Inl e)
   \<and> (checkValid data = None \<and> decode data (False, []) = (d, None)
        \<longrightarrow> newGit os decode (Some data) =
              Inr \<lparr>DetectRef = fst d, Ref = snd d, refDetetector = detectRef os\<rparr>)"
  by (simp add: newGit_def Unmarshal_def checkValid_empty)

theorem newGit_construction_witness:
  "newGit demoOS (\<lambda>data v. (v, None)) (Some ''{'') = Inl (UnexpectedEnd 1)
   \<and> newGit demoOS (\<lambda>data v. (v, Some (Failure ''cannot unmarshal number into Go struct field'')))
        (Some ''{}'') = Inl (Failure ''cannot unmarshal number into Go struct field'')
   \<and> newGit demoOS (\<lambda>data v. ((True, ''main''), None)) (Some ''{}'')
        = Inr \<lparr>DetectRef = True, Ref = ''main'', refDetetector = detectRef demoOS\<rparr>"
  using newGit_construction [where os = demoOS and decode = "\<lambda>data v. (v, None)" and data = "''{''"
          and e = "UnexpectedEnd 1"]
        newGit_construction [where os = demoOS
          and decode = "\<lambda>data v. (v, Some (Failure ''cannot unmarshal number into Go struct field''))"
          and data = "''{}''" and e = "Failure ''cannot unmarshal number into Go struct field''"
          and d = "(False, [])"]
        newGit_construction [where os = demoOS and decode = "\<lambda>data v. ((True, ''main''), None)"
          and data = "''{}''" and d = "(True, ''main'')"]
  by (simp add: checkValid_open_brace checkValid_empty_object)

text \<open>
  The claim as stated (an empty blob yields the defaults) fails for the empty slice that
  is not \<^verbatim>\<open>nil\<close>.
\<close>

theorem newGit_empty_blob_fails:
  "newGit demoOS (\<lambda>data v. (v, None)) (Some []) = Inl (UnexpectedEnd 0)"
  by (simp add: newGit_def Unmarshal_def checkValid_empty)

end
